theory Spec2Isabelle
  imports Main
begin

section \<open>JavaScript values and the lodash predicates used by index.js\<close>

text \<open>
  The fields that index.js validates (title, userId, username, photo, body, from) can hold
  any JavaScript value, so they are modelled by a small value type. \<open>JNum\<close> stands for the
  integral numbers; \<open>JObj\<close> is an object as its list of own properties, \<open>JArr\<close> an array.
\<close>

datatype jsval =
    JUndefined
  | JNull
  | JBool bool
  | JNum int
  | JStr string
  | JObj "(string \<times> jsval) list"
  | JArr "jsval list"

text \<open>\<open>_.isString\<close>, \<open>_.isObject\<close> and \<open>_.isEmpty\<close> of lodash. \<open>_.isEmpty\<close> is true of every
  primitive that is not a string, of the empty string, of an object with no own property and
  of the empty array.\<close>

fun isString :: "jsval \<Rightarrow> bool" where
  "isString (JStr s) = True"
| "isString v = False"

fun isObject :: "jsval \<Rightarrow> bool" where
  "isObject (JObj kvs) = True"
| "isObject (JArr xs) = True"
| "isObject v = False"

fun isEmpty :: "jsval \<Rightarrow> bool" where
  "isEmpty (JStr s) = (s = [])"
| "isEmpty (JObj kvs) = (kvs = [])"
| "isEmpty (JArr xs) = (xs = [])"
| "isEmpty v = True"

text \<open>Truthiness, as tested by \<open>member.username && ...\<close> and \<open>member.username || ''\<close>.\<close>

fun truthy :: "jsval \<Rightarrow> bool" where
  "truthy JUndefined = False"
| "truthy JNull = False"
| "truthy (JBool b) = b"
| "truthy (JNum n) = (n \<noteq> 0)"
| "truthy (JStr s) = (s \<noteq> [])"
| "truthy (JObj kvs) = True"
| "truthy (JArr xs) = True"

text \<open>\<open>a === b\<close>. Primitives are compared by value. Objects and arrays are compared by
  reference in JavaScript; two object values of the model stand for two distinct objects
  (one read from the store, one supplied by the caller), which are never identical.\<close>

fun strict_eq :: "jsval \<Rightarrow> jsval \<Rightarrow> bool" where
  "strict_eq JUndefined JUndefined = True"
| "strict_eq JNull JNull = True"
| "strict_eq (JBool a) (JBool b) = (a = b)"
| "strict_eq (JNum a) (JNum b) = (a = b)"
| "strict_eq (JStr a) (JStr b) = (a = b)"
| "strict_eq a b = False"

text \<open>Property read \<open>v.k\<close> on a value that is known to be an object: a missing property
  reads as \<open>undefined\<close>.\<close>

fun get_prop :: "jsval \<Rightarrow> string \<Rightarrow> jsval" where
  "get_prop (JObj kvs) k = (case map_of kvs k of None \<Rightarrow> JUndefined | Some v \<Rightarrow> v)"
| "get_prop v k = JUndefined"

section \<open>Errors, synchronous outcomes and promises\<close>

text \<open>The three error classes of index.js, each with its message; the \<open>TypeError\<close> that
  JavaScript raises on a property read of \<open>undefined\<close> and on a call of something that is
  not a function; and the \<open>FirebaseError\<close> of firebase/firestore, with its code.\<close>

datatype error =
    ChatRoomError string
  | InitializeAppError string
  | MessageError string
  | TypeError string
  | FirebaseError string

text \<open>A call either returns or throws synchronously; a promise is fulfilled or rejected.\<close>

datatype 'a outcome = Returned 'a | Threw error

datatype 'a promise = Fulfilled 'a | Rejected error

section \<open>Document references\<close>

text \<open>\<open>"a/b".split("/")\<close>: the pieces of a string between the occurrences of a character.\<close>

fun split_on :: "char \<Rightarrow> string \<Rightarrow> string list" where
  "split_on d [] = [[]]"
| "split_on d (c # cs) =
     (if c = d then [] # split_on d cs
      else (case split_on d cs of [] \<Rightarrow> [[c]] | w # ws \<Rightarrow> (c # w) # ws))"

fun has_double_slash :: "string \<Rightarrow> bool" where
  "has_double_slash (c # c' # cs) =
     ((c = CHR ''/'' \<and> c' = CHR ''/'') \<or> has_double_slash (c' # cs))"
| "has_double_slash cs = False"

fun join_slash :: "string list \<Rightarrow> string" where
  "join_slash [] = []"
| "join_slash [w] = w"
| "join_slash (w # ws) = w @ ''/'' @ join_slash ws"

text \<open>
  \<open>collection(...).doc(pathString)\<close> of firebase/firestore, the library that index.js
  imports. The argument must be a non-empty string; it is read as a path, which must not
  contain \<open>//\<close>, whose empty first and last pieces are dropped, and which must name a
  document, that is have an odd number of segments below the collection. Anything else
  throws a FirebaseError (\<open>None\<close>). A reference is kept as its path below the collection,
  the segments joined by slashes; for an id without a slash that is the id itself. The
  collections of the model are flat: a path of several segments is a key like any other.
\<close>

definition doc :: "jsval \<Rightarrow> string option" where
  "doc v =
     (case v of
        JStr s \<Rightarrow>
          if s = [] \<or> has_double_slash s then None
          else
            (let segs = filter (\<lambda>w. w \<noteq> []) (split_on CHR ''/'' s) in
             if even (length segs) then None else Some (join_slash segs))
      | _ \<Rightarrow> None)"

text \<open>\<open>ref.id\<close>: the last segment of the path of a reference.\<close>

definition ref_id :: "string \<Rightarrow> string" where
  "ref_id path = last (split_on CHR ''/'' path)"

text \<open>
  A key of the object given to \<open>update\<close> is read as a field path: it must not contain one
  of \<open>~ * / [ ]\<close>, its pieces between dots must not be empty, and otherwise the write goes
  to the top-level field named by the first piece. \<open>None\<close> is the FirebaseError.
\<close>

definition update_field :: "string \<Rightarrow> string option" where
  "update_field k =
     (if set k \<inter> set ''~*/[]'' \<noteq> {} \<or> [] \<in> set (split_on CHR ''.'' k) then None
      else Some (hd (split_on CHR ''.'' k)))"

text \<open>An id as \<open>doc()\<close> generates them: not empty and free of the characters that a path or
  a field path reads.\<close>

definition plain_id :: "string \<Rightarrow> bool" where
  "plain_id s = (s \<noteq> [] \<and> set s \<inter> set ''/.~*[]'' = {})"

section \<open>Documents and the store\<close>

text \<open>A member object: its \<open>id\<close> property (\<open>m_id\<close>, read by \<open>joinChatRoom\<close> only), and
  \<open>phtot\<close>, the property that \<open>createChatRoom\<close> writes. A property holding \<open>JUndefined\<close>
  is an absent property.\<close>

record member =
  m_id :: jsval
  userId :: jsval
  username :: jsval
  photo :: jsval
  phtot :: jsval

text \<open>A document of the collection ChatRooms, as written by \<open>createChatRoom\<close>.\<close>

record room_doc =
  title :: jsval
  members :: "member list"
  createdAt :: nat
  isRemoved :: bool
  isOpen :: bool

text \<open>A document of a room's sub-collection messages.\<close>

record message_doc =
  body :: jsval
  from_user :: jsval
  sentAt :: nat
  updatedAt :: "nat option"

text \<open>
  The store: the collections ChatRooms and UsersChat by the path of the reference, and the
  messages by the path of the room and the key of the message. A document of UsersChat is
  an object \<open>{[chatKey]: chatKey}\<close>; it is modelled by the list of its top-level field
  names, which is what \<open>Object.keys\<close> of its data enumerates.
\<close>

record store =
  ChatRooms :: "string \<rightharpoonup> room_doc"
  UsersChat :: "string \<rightharpoonup> string list"
  Messages :: "(string \<times> string) \<rightharpoonup> message_doc"

text \<open>Modelled from the spec: the \<open>update\<close> of the document store adapter of section 6,
  an external collaborator, here with fixed field names. It merges the given fields into an
  existing document and is rejected when there is none, which is why
  \<open>addToMemberConversations\<close> tests \<open>snap.exists\<close> before it chooses between \<open>update\<close> and
  \<open>set\<close>. Every store call is taken to reach the store.\<close>

definition update_room :: "string \<Rightarrow> (room_doc \<Rightarrow> room_doc) \<Rightarrow> store \<Rightarrow> unit promise \<times> store" where
  "update_room key f s =
     (case ChatRooms s key of
        None \<Rightarrow> (Rejected (FirebaseError ''not-found''), s)
      | Some d \<Rightarrow> (Fulfilled (), s\<lparr>ChatRooms := (ChatRooms s)(key \<mapsto> f d)\<rparr>))"

section \<open>Room index: addToMemberConversations\<close>

text \<open>
  \<open>addToMemberConversations(memberId, chatKey)\<close>. \<open>doc(memberId)\<close> throws in the call
  itself when \<open>memberId\<close> is not the path of a document. Otherwise the call returns, and
  the callback of \<open>chatRef.get()\<close> runs \<open>update({[chatKey]: chatKey})\<close> when the record
  exists and \<open>set({[chatKey]: chatKey})\<close> when it does not. An \<open>update\<close> that refuses
  \<open>chatKey\<close> as a field path fails inside the callback, where nothing handles it, and the
  record stays as it was; \<open>set\<close> takes \<open>chatKey\<close> as the name of the field.
\<close>

definition addToMemberConversations :: "jsval \<Rightarrow> string \<Rightarrow> store \<Rightarrow> jsval outcome \<times> store" where
  "addToMemberConversations memberId chatKey s =
     (case doc memberId of
        None \<Rightarrow> (Threw (FirebaseError ''invalid-argument''), s)
      | Some chatRef \<Rightarrow>
          (Returned JUndefined,
           case UsersChat s chatRef of
             Some keys \<Rightarrow>
               (case update_field chatKey of
                  None \<Rightarrow> s
                | Some k \<Rightarrow>
                    s\<lparr>UsersChat := (UsersChat s)(chatRef \<mapsto>
                         (if k \<in> set keys then keys else keys @ [k]))\<rparr>)
           | None \<Rightarrow> s\<lparr>UsersChat := (UsersChat s)(chatRef \<mapsto> [chatKey])\<rparr>))"

section \<open>The class ChatRoom\<close>

text \<open>A ChatRoom object built by \<open>new ChatRoom(fromRef, room)\<close>: the fields of the stored
  room and the reference of its document. The class declares two constructors; this is the
  one whose parameters are those of the call in \<open>joinChatRoom\<close>.\<close>

record chat_room = room_doc +
  chatRoomRef :: string

definition ChatRoom :: "string \<Rightarrow> room_doc \<Rightarrow> chat_room" where
  "ChatRoom fromRef room =
     \<lparr>title = title room, members = members room, createdAt = createdAt room,
      isRemoved = isRemoved room, isOpen = isOpen room, chatRoomRef = fromRef\<rparr>"

section \<open>createChatRoom\<close>

text \<open>The \<open>forEach\<close> over the members: each member is checked and then given its defaults, in
  order, and the first invalid member throws. The default of the photo is written to the
  property \<open>phtot\<close>, as in the source; \<open>photo\<close> itself is left as it came.\<close>

fun check_members :: "member list \<Rightarrow> error + member list" where
  "check_members [] = Inr []"
| "check_members (m # ms) =
     (if isEmpty (userId m) \<or> \<not> isString (userId m) then
        Inl (ChatRoomError ''Users must be a string and not empty ,your Object keys must be  {userId, username if any, photo if any} '')
      else if truthy (username m) \<and> \<not> isString (username m) then
        Inl (ChatRoomError ''User names should be strings'')
      else if truthy (photo m) \<and> \<not> isString (photo m) then
        Inl (ChatRoomError ''Photos should be strings'')
      else
        (case check_members ms of
           Inl e \<Rightarrow> Inl e
         | Inr ms' \<Rightarrow>
             Inr (m\<lparr>username := (if truthy (username m) then username m else JStr ''''),
                    phtot := (if truthy (photo m) then photo m else JStr '''')\<rparr> # ms')))"

text \<open>The \<open>forEach\<close> in the callback of \<open>set(...).then\<close>: one
  \<open>addToMemberConversations(member.userId, chatRoomRef.id)\<close> for each member; a call that
  throws ends the loop, and the members after it are not indexed.\<close>

fun index_members :: "member list \<Rightarrow> string \<Rightarrow> store \<Rightarrow> store" where
  "index_members [] chatKey s = s"
| "index_members (m # ms) chatKey s =
     (case addToMemberConversations (userId m) chatKey s of
        (Threw e, s') \<Rightarrow> s'
      | (Returned u, s') \<Rightarrow> index_members ms chatKey s')"

text \<open>
  \<open>createChatRoom(title, members)\<close>. \<open>newKey\<close> is the key that \<open>doc()\<close> generates and
  \<open>now\<close> the value of \<open>Date.now()\<close>. The function has no \<open>return\<close> statement: the promise
  built by \<open>set(...).then(...)\<close> is dropped, so a call that does not throw returns
  \<open>undefined\<close>. The store of the result is the one reached when the callback of \<open>then\<close> has
  run and every \<open>addToMemberConversations\<close> has completed.
\<close>

definition createChatRoom ::
  "jsval \<Rightarrow> member list \<Rightarrow> string \<Rightarrow> nat \<Rightarrow> store \<Rightarrow> jsval outcome \<times> store" where
  "createChatRoom ttl mems newKey now s =
     (if isEmpty ttl \<or> \<not> isString ttl then
        (Threw (ChatRoomError ''title should be not empty and be string''), s)
      else
        (case check_members mems of
           Inl e \<Rightarrow> (Threw e, s)
         | Inr ms \<Rightarrow>
             (Returned JUndefined,
              index_members ms newKey
                (s\<lparr>ChatRooms := (ChatRooms s)(newKey \<mapsto>
                     \<lparr>title = ttl, members = ms, createdAt = now,
                      isRemoved = False, isOpen = True\<rparr>)\<rparr>))))"

section \<open>joinChatRoom\<close>

text \<open>
  \<open>joinChatRoom(member)\<close> first builds the reference \<open>doc(member.id)\<close>, which throws in the
  call itself when \<open>member.id\<close> is not the path of a document. The rest has two steps that
  the event loop runs apart. \<open>join_get\<close> is \<open>chatRoomRef.get()\<close>. \<open>join_then\<close> is the
  callback on the snapshot: the three checks, then the unconditional
  \<open>update({members, isOpen: false})\<close> with the members of the snapshot and, once it is
  done, \<open>addToMemberConversations(member.userId, chatRoomRef.id)\<close>, whose throw rejects
  the promise after the room was updated, and the ChatRoom that fulfils the promise.
\<close>

definition join_get :: "string \<Rightarrow> store \<Rightarrow> room_doc option" where
  "join_get roomRef s = ChatRooms s roomRef"

definition join_then ::
  "member \<Rightarrow> string \<Rightarrow> room_doc option \<Rightarrow> store \<Rightarrow> chat_room promise \<times> store" where
  "join_then mem roomRef snap s =
     (case snap of
        None \<Rightarrow> (Rejected (ChatRoomError ''Chat Room does'nt exist''), s)
      | Some room \<Rightarrow>
          if isRemoved room then (Rejected (ChatRoomError ''Chat Room was Already removed''), s)
          else if \<not> isOpen room then (Rejected (ChatRoomError ''Chat Room is Private''), s)
          else
            (let room' = room\<lparr>members := members room @ [mem], isOpen := False\<rparr> in
             case update_room roomRef (\<lambda>d. d\<lparr>members := members room', isOpen := False\<rparr>) s of
               (Rejected e, s') \<Rightarrow> (Rejected e, s')
             | (Fulfilled u, s') \<Rightarrow>
                 (case addToMemberConversations (userId mem) (ref_id roomRef) s' of
                    (Threw e, s'') \<Rightarrow> (Rejected e, s'')
                  | (Returned v, s'') \<Rightarrow> (Fulfilled (ChatRoom roomRef room'), s''))))"

definition joinChatRoom :: "member \<Rightarrow> store \<Rightarrow> chat_room promise outcome \<times> store" where
  "joinChatRoom mem s =
     (case doc (m_id mem) of
        None \<Rightarrow> (Threw (FirebaseError ''invalid-argument''), s)
      | Some roomRef \<Rightarrow>
          (Returned (fst (join_then mem roomRef (join_get roomRef s) s)),
           snd (join_then mem roomRef (join_get roomRef s) s)))"

text \<open>
  Two calls of \<open>joinChatRoom\<close> in one event loop: each call is at one of four points
  (nothing done, reference refused, snapshot read, promise settled), and a schedule says
  which call takes its next step (\<open>True\<close> the first, \<open>False\<close> the second). A step of a call
  that threw or is settled does nothing.
\<close>

datatype join_pc =
    Pending
  | Thrown error
  | Loaded string "room_doc option"
  | Settled "chat_room promise"

fun join_step :: "member \<Rightarrow> join_pc \<Rightarrow> store \<Rightarrow> join_pc \<times> store" where
  "join_step mem Pending s =
     (case doc (m_id mem) of
        None \<Rightarrow> (Thrown (FirebaseError ''invalid-argument''), s)
      | Some roomRef \<Rightarrow> (Loaded roomRef (join_get roomRef s), s))"
| "join_step mem (Loaded roomRef snap) s =
     (Settled (fst (join_then mem roomRef snap s)), snd (join_then mem roomRef snap s))"
| "join_step mem (Thrown e) s = (Thrown e, s)"
| "join_step mem (Settled p) s = (Settled p, s)"

fun run_joins ::
  "bool list \<Rightarrow> member \<Rightarrow> member \<Rightarrow> join_pc \<times> join_pc \<times> store \<Rightarrow> join_pc \<times> join_pc \<times> store" where
  "run_joins [] memA memB c = c"
| "run_joins (True # sched) memA memB (pa, pb, s) =
     run_joins sched memA memB (fst (join_step memA pa s), pb, snd (join_step memA pa s))"
| "run_joins (False # sched) memA memB (pa, pb, s) =
     run_joins sched memA memB (pa, fst (join_step memB pb s), snd (join_step memB pb s))"

section \<open>ChatRoom.setNewTitle, ChatRoom.remove, ChatRoom.removeMutualChatRooms\<close>

text \<open>\<open>setNewTitle(title, onComplete)\<close>: the check, then \<open>update({title})\<close>, then
  \<open>onComplete(title)\<close>, which is called at once as the argument of \<open>then\<close> is evaluated;
  without a callback that call is a \<open>TypeError\<close>, raised after the update was issued.\<close>

definition ChatRoom_setNewTitle ::
  "jsval \<Rightarrow> bool \<Rightarrow> chat_room \<Rightarrow> store \<Rightarrow> jsval outcome \<times> store" where
  "ChatRoom_setNewTitle ttl has_onComplete this s =
     (if \<not> isString ttl \<or> isEmpty ttl then
        (Threw (ChatRoomError ''title should be not empty and string''), s)
      else
        (let s' = snd (update_room (chatRoomRef this) (\<lambda>d. d\<lparr>title := ttl\<rparr>) s) in
         if has_onComplete then (Returned JUndefined, s')
         else (Threw (TypeError ''onComplete is not a function''), s')))"

text \<open>
  \<open>remove(softRemove, onComplete)\<close>. With \<open>softRemove\<close> it issues \<open>update({isRemoved:
  true})\<close>, whose rejection is not handled, and returns \<open>this\<close>. Without it the method
  calls \<open>this.chatRoomRef.remove(onComplete)\<close>: a document reference of firebase/firestore
  has \<open>delete\<close> and no \<open>remove\<close>, so the call is a \<open>TypeError\<close> and nothing is deleted.
  The completion callback takes no part in the persisted state and is left out.
\<close>

definition ChatRoom_remove :: "bool \<Rightarrow> chat_room \<Rightarrow> store \<Rightarrow> chat_room outcome \<times> store" where
  "ChatRoom_remove softRemove this s =
     (if softRemove then
        (Returned this, snd (update_room (chatRoomRef this) (\<lambda>d. d\<lparr>isRemoved := True\<rparr>) s))
      else (Threw (TypeError ''this.chatRoomRef.remove is not a function''), s))"

text \<open>
  The \<open>forEach\<close> of \<open>removeMutualChatRooms\<close> over the keys of user B, with the error that
  ends it, if any. For each key the reference \<open>doc(id)\<close> is built first, which throws for a
  key that is not the path of a document; for a key that user A lists too, the update is
  issued when \<open>softRemove\<close> is set, and \<open>chatRoomRef.remove()\<close> is called otherwise, which
  is the \<open>TypeError\<close> of \<open>remove\<close> above.
\<close>

fun remove_mutual_each ::
  "string list \<Rightarrow> bool \<Rightarrow> string list \<Rightarrow> store \<Rightarrow> error option \<times> store" where
  "remove_mutual_each userAChats softRemove [] s = (None, s)"
| "remove_mutual_each userAChats softRemove (key # keys) s =
     (case doc (JStr key) of
        None \<Rightarrow> (Some (FirebaseError ''invalid-argument''), s)
      | Some roomRef \<Rightarrow>
          if key \<in> set userAChats then
            (if softRemove then
               remove_mutual_each userAChats softRemove keys
                 (snd (update_room roomRef (\<lambda>d. d\<lparr>isRemoved := True\<rparr>) s))
             else (Some (TypeError ''chatRoomRef.remove is not a function''), s))
          else remove_mutual_each userAChats softRemove keys s)"

text \<open>\<open>removeMutualChatRooms(userA, userB, softRemove)\<close>, an \<open>async\<close> function, so that
  whatever is thrown in it rejects its promise: the two references and reads, then
  \<open>Object.keys\<close> of the data of each record, a \<open>TypeError\<close> for a record that does not
  exist, then the \<open>forEach\<close>.\<close>

definition removeMutualChatRooms ::
  "jsval \<Rightarrow> jsval \<Rightarrow> bool \<Rightarrow> store \<Rightarrow> jsval promise \<times> store" where
  "removeMutualChatRooms userA userB softRemove s =
     (case doc userA of
        None \<Rightarrow> (Rejected (FirebaseError ''invalid-argument''), s)
      | Some refA \<Rightarrow>
          (case doc userB of
             None \<Rightarrow> (Rejected (FirebaseError ''invalid-argument''), s)
           | Some refB \<Rightarrow>
               (case UsersChat s refA of
                  None \<Rightarrow> (Rejected (TypeError ''Cannot convert undefined or null to object''), s)
                | Some userAChats \<Rightarrow>
                    (case UsersChat s refB of
                       None \<Rightarrow>
                         (Rejected (TypeError ''Cannot convert undefined or null to object''), s)
                     | Some userBChats \<Rightarrow>
                         (case remove_mutual_each userAChats softRemove userBChats s of
                            (None, s') \<Rightarrow> (Fulfilled JUndefined, s')
                          | (Some e, s') \<Rightarrow> (Rejected e, s'))))))"

section \<open>ChatRoom.getUserChatRooms\<close>

text \<open>The objects \<open>userAFire\<close> and \<open>userBFire\<close>, and the ChatRoom that \<open>getUserChatRooms\<close>
  builds from five arguments (title, the two users, \<open>undefined\<close>, the reference) before it
  sets \<open>createdAt\<close>. The class declares no constructor of that shape, so the view records
  the arguments as they are passed.\<close>

record user_fire =
  fire_userId :: jsval
  fire_username :: jsval
  fire_photo :: jsval

record chat_view =
  view_title :: jsval
  userAFire :: user_fire
  userBFire :: user_fire
  view_ref :: string
  view_createdAt :: nat

definition to_fire :: "member \<Rightarrow> user_fire" where
  "to_fire m = \<lparr>fire_userId = userId m, fire_username = username m, fire_photo = photo m\<rparr>"

text \<open>The callback of \<open>chatRoomRef.get()\<close> for one room reference, up to \<open>list.push\<close>:
  nothing when the document does not exist, a \<open>TypeError\<close> when \<open>snap.members[0]\<close> or
  \<open>snap.members[1]\<close> is \<open>undefined\<close>.\<close>

definition fetch_chat :: "string \<Rightarrow> store \<Rightarrow> chat_view option outcome" where
  "fetch_chat roomRef s =
     (case ChatRooms s roomRef of
        None \<Rightarrow> Returned None
      | Some snap \<Rightarrow>
          (case members snap of
             a # b # rest \<Rightarrow>
               Returned (Some \<lparr>view_title = title snap, userAFire = to_fire a,
                               userBFire = to_fire b, view_ref = roomRef,
                               view_createdAt = createdAt snap\<rparr>)
           | _ \<Rightarrow> Threw (TypeError ''Cannot read property userId of undefined'')))"

text \<open>The references whose \<open>get\<close> the \<open>forEach\<close> over \<open>ids\<close> issues: \<open>doc(id)\<close> throws for a
  key that is not the path of a document, which ends the loop in the callback.\<close>

fun issued_refs :: "string list \<Rightarrow> string list" where
  "issued_refs [] = []"
| "issued_refs (key # keys) =
     (case doc (JStr key) of None \<Rightarrow> [] | Some roomRef \<Rightarrow> roomRef # issued_refs keys)"

text \<open>The callbacks of the issued fetches, completing in the order of the keys. \<open>n\<close> is
  \<open>ids.length\<close>, \<open>lst\<close> the array \<open>list\<close>, \<open>calls\<close> the calls of \<open>onComplete\<close> so far, each
  with its two arguments. A fetch that returns early or throws pushes nothing and does not
  reach the test \<open>list.length == ids.length\<close>.\<close>

type_synonym completion = "jsval \<times> chat_view list option"

fun collect_chats ::
  "nat \<Rightarrow> string list \<Rightarrow> store \<Rightarrow> chat_view list \<Rightarrow> completion list \<Rightarrow> completion list" where
  "collect_chats n [] s lst calls = calls"
| "collect_chats n (key # keys) s lst calls =
     (case fetch_chat key s of
        Returned (Some newChat) \<Rightarrow>
          collect_chats n keys s (lst @ [newChat])
            (if length (lst @ [newChat]) = n then calls @ [(JUndefined, Some (lst @ [newChat]))]
             else calls)
      | Returned None \<Rightarrow> collect_chats n keys s lst calls
      | Threw e \<Rightarrow> collect_chats n keys s lst calls)"

text \<open>\<open>getUserChatRooms(user, onComplete)\<close>: what the call returns or throws, and the calls
  of \<open>onComplete\<close> that follow. \<open>doc(user)\<close> throws in the call itself when the user is not
  the path of a document.\<close>

definition getUserChatRooms :: "jsval \<Rightarrow> store \<Rightarrow> jsval outcome \<times> completion list" where
  "getUserChatRooms user s =
     (if isEmpty user then (Threw (ChatRoomError ''userId should be string''), [])
      else
        (case doc (if isObject user then get_prop user ''userId'' else user) of
           None \<Rightarrow> (Threw (FirebaseError ''invalid-argument''), [])
         | Some userChatRoomsRef \<Rightarrow>
             (Returned JUndefined,
              case UsersChat s userChatRoomsRef of
                None \<Rightarrow> [(JStr ''User has no chat rooms'', None)]
              | Some ids \<Rightarrow> collect_chats (length ids) (issued_refs ids) s [] [])))"

section \<open>The class Message\<close>

record message = message_doc +
  chatRoom :: chat_room
  messageRef :: "string \<times> string"

text \<open>\<open>chatRoom.members[i].userId !== v\<close>; the read of \<open>userId\<close> throws when the room has no
  member at \<open>i\<close>.\<close>

definition differs_at :: "member list \<Rightarrow> nat \<Rightarrow> jsval \<Rightarrow> bool outcome" where
  "differs_at ms i v =
     (if i < length ms then Returned (\<not> strict_eq (userId (ms ! i)) v)
      else Threw (TypeError ''Cannot read property userId of undefined''))"

text \<open>The condition \<open>(g && members[0].userId !== v) && (g && members[1].userId !== v)\<close> of
  the two membership checks, with the short circuit of \<open>&&\<close>.\<close>

definition in_neither :: "bool \<Rightarrow> member list \<Rightarrow> jsval \<Rightarrow> bool outcome" where
  "in_neither g ms v =
     (if \<not> g then Returned False
      else
        (case differs_at ms 0 v of
           Threw e \<Rightarrow> Threw e
         | Returned False \<Rightarrow> Returned False
         | Returned True \<Rightarrow> differs_at ms 1 v))"

text \<open>
  \<open>new Message(body, from, chatRoom, onComplete, fromRef)\<close>. \<open>fromRef\<close> is \<open>None\<close> when the
  argument is left out (then \<open>_.isEmpty(fromRef)\<close> holds, a fresh document \<open>newKey\<close> is
  created under the room and the entry is written) and \<open>Some ref\<close> for a document
  reference. The test \<open>!chatRoom instanceof ChatRoom\<close> is \<open>false instanceof ChatRoom\<close> and
  never throws. \<open>onComplete\<close> is handed to \<open>then\<close> after the write and takes no part in
  what is stored.
\<close>

definition Message_constructor ::
  "jsval \<Rightarrow> jsval \<Rightarrow> chat_room \<Rightarrow> (string \<times> string) option \<Rightarrow> string \<Rightarrow> nat \<Rightarrow> store
     \<Rightarrow> message outcome \<times> store" where
  "Message_constructor bdy frm room fromRef newKey now s =
     (if isEmpty bdy \<or> \<not> isString bdy then
        (Threw (MessageError ''Message should have body and be string''), s)
      else if isEmpty frm then (Threw (MessageError ''From should be not empty''), s)
      else
        (case in_neither (isString frm) (members room) frm of
           Threw e \<Rightarrow> (Threw e, s)
         | Returned True \<Rightarrow> (Threw (MessageError '' 'from' user must be in this chat room''), s)
         | Returned False \<Rightarrow>
             (case in_neither (isObject frm) (members room) (get_prop frm ''userId'') of
                Threw e \<Rightarrow> (Threw e, s)
              | Returned True \<Rightarrow>
                  (Threw (MessageError '' 'from' user must be in this chat room''), s)
              | Returned False \<Rightarrow>
                  (let sender = (if isString frm then frm else get_prop frm ''userId'') in
                   case fromRef of
                     None \<Rightarrow>
                       (Returned \<lparr>body = bdy, from_user = sender, sentAt = now, updatedAt = None,
                                  chatRoom = room, messageRef = (chatRoomRef room, newKey)\<rparr>,
                        s\<lparr>Messages := (Messages s)((chatRoomRef room, newKey) \<mapsto>
                             \<lparr>body = bdy, from_user = sender, sentAt = now, updatedAt = None\<rparr>)\<rparr>)
                   | Some ref \<Rightarrow>
                       (Returned \<lparr>body = bdy, from_user = sender, sentAt = now, updatedAt = None,
                                  chatRoom = room, messageRef = ref\<rparr>, s)))))"

text \<open>\<open>sendMessage(body, from, onComplete)\<close> is \<open>new Message(body, from, this, onComplete)\<close>.\<close>

definition ChatRoom_sendMessage ::
  "jsval \<Rightarrow> jsval \<Rightarrow> chat_room \<Rightarrow> string \<Rightarrow> nat \<Rightarrow> store \<Rightarrow> message outcome \<times> store" where
  "ChatRoom_sendMessage bdy frm this newKey now s =
     Message_constructor bdy frm this None newKey now s"

text \<open>\<open>updateBody(newBody, callback)\<close>: the check, \<open>this.updatedAt\<close>, the update of the entry
  (rejected, and not handled, when the entry is gone), and \<open>callback(newBody)\<close> called at
  once as in \<open>setNewTitle\<close>. The method has no \<open>return\<close> statement; the result is what
  the call returns or throws, the Message \<open>this\<close> after the call, and the store.\<close>

definition Message_updateBody ::
  "jsval \<Rightarrow> bool \<Rightarrow> message \<Rightarrow> nat \<Rightarrow> store \<Rightarrow> jsval outcome \<times> message \<times> store" where
  "Message_updateBody newBody has_callback this now s =
     (if isEmpty newBody \<or> \<not> isString newBody then
        (Threw (MessageError ''Message should have body and be string''), this, s)
      else
        (let s' = (case Messages s (messageRef this) of
                     None \<Rightarrow> s
                   | Some d \<Rightarrow>
                       s\<lparr>Messages := (Messages s)(messageRef this \<mapsto>
                            d\<lparr>body := newBody, updatedAt := Some now\<rparr>)\<rparr>) in
         if has_callback then (Returned JUndefined, this\<lparr>updatedAt := Some now\<rparr>, s')
         else (Threw (TypeError ''callback is not a function''), this\<lparr>updatedAt := Some now\<rparr>, s')))"

section \<open>ChatRoom.getMessagesAndListen\<close>

text \<open>A change of a snapshot: its type, and the key and data of its document.\<close>

datatype change_type = Added | Modified | Removed

record doc_change =
  ctype :: change_type
  doc_key :: string
  doc_data :: message_doc

text \<open>
  The listener passed to \<open>onSnapshot\<close>, run on the changes of one snapshot: for each change
  of type \<open>'added'\<close> it builds a Message from the stored body and sender with the reference
  of the document, sets its \<open>createdAt\<close> to the stored one and calls \<open>action\<close>. The result
  is the list of the arguments of \<open>action\<close>, in order, and the error that ended the
  \<open>forEach\<close>, if the constructor threw. The constructor is given a reference, so it writes
  nothing and the store is the same for every change.
\<close>

fun snapshot_listener ::
  "chat_room \<Rightarrow> nat \<Rightarrow> store \<Rightarrow> doc_change list \<Rightarrow> message list \<times> error option" where
  "snapshot_listener this now s [] = ([], None)"
| "snapshot_listener this now s (c # cs) =
     (if ctype c = Added then
        (case fst (Message_constructor (body (doc_data c)) (from_user (doc_data c)) this
                     (Some (chatRoomRef this, doc_key c)) [] now s) of
           Threw e \<Rightarrow> ([], Some e)
         | Returned newMessage \<Rightarrow>
             (newMessage\<lparr>sentAt := sentAt (doc_data c)\<rparr> # fst (snapshot_listener this now s cs),
              snd (snapshot_listener this now s cs)))
      else snapshot_listener this now s cs)"

text \<open>\<open>getMessagesAndListen(action)\<close> registers the listener and has no \<open>return\<close>
  statement: the function that \<open>onSnapshot\<close> returns to end the subscription is dropped,
  and the caller receives \<open>undefined\<close>.\<close>

definition getMessagesAndListen ::
  "chat_room \<Rightarrow> jsval \<times> (nat \<Rightarrow> store \<Rightarrow> doc_change list \<Rightarrow> message list \<times> error option)" where
  "getMessagesAndListen this = (JUndefined, snapshot_listener this)"

section \<open>Example data\<close>

text \<open>Three members that name the room \<open>r1\<close> in their \<open>id\<close>, the room document "Trip" and
  small stores, used to run the operations on concrete inputs.\<close>

definition u1 :: member where
  "u1 = \<lparr>m_id = JStr ''r1'', userId = JStr ''u1'', username = JUndefined, photo = JUndefined,
          phtot = JUndefined\<rparr>"

definition u2 :: member where
  "u2 = \<lparr>m_id = JStr ''r1'', userId = JStr ''u2'', username = JUndefined, photo = JUndefined,
          phtot = JUndefined\<rparr>"

definition u3 :: member where
  "u3 = \<lparr>m_id = JStr ''r1'', userId = JStr ''u3'', username = JUndefined, photo = JUndefined,
          phtot = JUndefined\<rparr>"

definition trip :: "member list \<Rightarrow> bool \<Rightarrow> bool \<Rightarrow> room_doc" where
  "trip ms removed opn =
     \<lparr>title = JStr ''Trip'', members = ms, createdAt = 1000, isRemoved = removed, isOpen = opn\<rparr>"

definition no_docs :: store where
  "no_docs = \<lparr>ChatRooms = Map.empty, UsersChat = Map.empty, Messages = Map.empty\<rparr>"

definition with_room :: "room_doc \<Rightarrow> store" where
  "with_room d = \<lparr>ChatRooms = [''r1'' \<mapsto> d], UsersChat = Map.empty, Messages = Map.empty\<rparr>"

definition two_rooms :: store where
  "two_rooms =
     \<lparr>ChatRooms = [''r1'' \<mapsto> trip [u1] False True, ''r2'' \<mapsto> trip [u3] False False],
      UsersChat = [''u1'' \<mapsto> [''r1'']], Messages = Map.empty\<rparr>"

text \<open>The ChatRoom of the room \<open>r1\<close> with the members \<open>u1\<close> and \<open>u2\<close>; a store with the
  given room documents in which user A is indexed under \<open>r1\<close>, \<open>r2\<close>, \<open>r3\<close> and user B under
  \<open>r2\<close>, \<open>r3\<close>, \<open>r4\<close>; a store in which \<open>u1\<close> is indexed under \<open>r1\<close> and under \<open>r2\<close>,
  which has no document; message entries and changes of a snapshot.\<close>

definition room12 :: chat_room where
  "room12 = ChatRoom ''r1'' (trip [u1, u2] False False)"

definition mutual_store :: "string list \<Rightarrow> store" where
  "mutual_store keys =
     \<lparr>ChatRooms = map_of (map (\<lambda>k. (k, trip [u1, u2] False False)) keys),
      UsersChat = [''A'' \<mapsto> [''r1'', ''r2'', ''r3''], ''B'' \<mapsto> [''r2'', ''r3'', ''r4'']],
      Messages = Map.empty\<rparr>"

definition index_store :: store where
  "index_store =
     \<lparr>ChatRooms = [''r1'' \<mapsto> trip [u1, u2] False False],
      UsersChat = [''u1'' \<mapsto> [''r1'', ''r2'']], Messages = Map.empty\<rparr>"

definition entry :: "string \<Rightarrow> string \<Rightarrow> nat \<Rightarrow> message_doc" where
  "entry bdy frm t = \<lparr>body = JStr bdy, from_user = JStr frm, sentAt = t, updatedAt = None\<rparr>"

definition change :: "change_type \<Rightarrow> string \<Rightarrow> message_doc \<Rightarrow> doc_change" where
  "change ty key d = \<lparr>ctype = ty, doc_key = key, doc_data = d\<rparr>"

section \<open>Properties of document references\<close>

text \<open>
  An id without a slash is its own reference and its own \<open>id\<close>, and a plain id is also
  its own field path. The ids of the examples are plain.
\<close>

lemma split_on_absent: "d \<notin> set s \<Longrightarrow> split_on d s = [s]"
  by (induction s) auto

lemma has_double_slash_absent: "CHR ''/'' \<notin> set s \<Longrightarrow> \<not> has_double_slash s"
  by (induction s rule: has_double_slash.induct) auto

lemma doc_plain: "plain_id s \<Longrightarrow> doc (JStr s) = Some s"
  by (auto simp: plain_id_def doc_def split_on_absent has_double_slash_absent)

lemma ref_id_plain: "plain_id s \<Longrightarrow> ref_id s = s"
  by (auto simp: plain_id_def ref_id_def split_on_absent)

lemma update_field_plain: "plain_id s \<Longrightarrow> update_field s = Some s"
  by (auto simp: plain_id_def update_field_def split_on_absent)

lemma plain_examples:
  "plain_id ''r1''" "plain_id ''r2''" "plain_id ''r3''" "plain_id ''r4''" "plain_id ''r9''"
  "plain_id ''u1''" "plain_id ''u2''" "plain_id ''u3''" "plain_id ''A''" "plain_id ''B''"
  by (simp_all add: plain_id_def)

lemmas doc_examples = plain_examples [THEN doc_plain]
lemmas ref_id_examples = plain_examples [THEN ref_id_plain]
lemmas update_field_examples = plain_examples [THEN update_field_plain]

text \<open>
  What \<open>doc\<close> refuses and what it takes: the empty string, a value that is not a string
  and a path of two segments are refused; a path of three segments names a document, and a
  slash at either end is dropped.
\<close>

lemma doc_refused:
  "doc (JStr []) = None" "doc JUndefined = None" "doc (JNum n) = None" "doc (JStr ''a/b'') = None"
  "doc (JStr ''a/b/c'') = Some ''a/b/c''" "doc (JStr ''/a/'') = Some ''a''"
  by (simp_all add: doc_def)

section \<open>Properties of joinChatRoom\<close>

lemma ChatRooms_addToMemberConversations [simp]:
  "ChatRooms (snd (addToMemberConversations u k s)) = ChatRooms s"
  by (simp add: addToMemberConversations_def split: option.splits)

lemma Messages_addToMemberConversations [simp]:
  "Messages (snd (addToMemberConversations u k s)) = Messages s"
  by (simp add: addToMemberConversations_def split: option.splits)

lemma addToMemberConversations_returns:
  "doc u = Some chatRef \<Longrightarrow> fst (addToMemberConversations u k s) = Returned JUndefined"
  by (simp add: addToMemberConversations_def)

lemma addToMemberConversations_throws:
  "doc u = None \<Longrightarrow> addToMemberConversations u k s = (Threw (FirebaseError ''invalid-argument''), s)"
  by (simp add: addToMemberConversations_def)

lemma join_then_open:
  assumes "ChatRooms s roomRef = Some d" "\<not> isRemoved room" "isOpen room"
    and "doc (userId mem) = Some userRef"
  shows "join_then mem roomRef (Some room) s =
           (Fulfilled (ChatRoom roomRef (room\<lparr>members := members room @ [mem], isOpen := False\<rparr>)),
            snd (addToMemberConversations (userId mem) (ref_id roomRef)
              (s\<lparr>ChatRooms := (ChatRooms s)(roomRef \<mapsto>
                   d\<lparr>members := members room @ [mem], isOpen := False\<rparr>)\<rparr>)))"
  using assms
  by (simp add: join_then_def update_room_def Let_def addToMemberConversations_def
      split: option.splits)

lemma join_then_open_bad_userId:
  assumes "ChatRooms s roomRef = Some d" "\<not> isRemoved room" "isOpen room"
    and "doc (userId mem) = None"
  shows "join_then mem roomRef (Some room) s =
           (Rejected (FirebaseError ''invalid-argument''),
            s\<lparr>ChatRooms := (ChatRooms s)(roomRef \<mapsto>
                   d\<lparr>members := members room @ [mem], isOpen := False\<rparr>)\<rparr>)"
  using assms
  by (simp add: join_then_def update_room_def Let_def addToMemberConversations_def)

lemma join_then_closed:
  assumes "\<not> isRemoved room" "\<not> isOpen room"
  shows "join_then mem roomRef (Some room) s = (Rejected (ChatRoomError ''Chat Room is Private''), s)"
  using assms by (simp add: join_then_def)

lemma joinChatRoom_bad_id:
  "doc (m_id mem) = None \<Longrightarrow> joinChatRoom mem s = (Threw (FirebaseError ''invalid-argument''), s)"
  by (simp add: joinChatRoom_def)

text \<open>
  Claim C2. When \<open>member.id\<close> is the path of a document, \<open>joinChatRoom\<close> returns a
  promise that is rejected with "Chat Room does'nt exist" (the NotFoundError of the spec)
  when there is no document under it; with "Chat Room was Already removed" when the room has
  \<open>isRemoved\<close>, whatever \<open>isOpen\<close> is, so this check comes first; with "Chat Room is
  Private" when the room is not removed and not open. In these three cases the store is
  unchanged. Otherwise the member is appended to the stored members and \<open>isOpen\<close> becomes
  false, and the promise is fulfilled with the ChatRoom when \<open>member.userId\<close> is the path
  of a document too. (Otherwise \<open>doc\<close> throws: in the call itself for \<open>member.id\<close>, lemma
  \<open>joinChatRoom_bad_id\<close>, and after the update for \<open>member.userId\<close>, lemma
  \<open>join_then_open_bad_userId\<close>.)
\<close>

theorem joinChatRoom_checks:
  assumes "doc (m_id mem) = Some roomRef"
  shows
  "(ChatRooms s roomRef = None \<longrightarrow>
      joinChatRoom mem s = (Returned (Rejected (ChatRoomError ''Chat Room does'nt exist'')), s)) \<and>
   (\<forall>room. ChatRooms s roomRef = Some room \<longrightarrow>
      (isRemoved room \<longrightarrow>
         joinChatRoom mem s =
           (Returned (Rejected (ChatRoomError ''Chat Room was Already removed'')), s)) \<and>
      (\<not> isRemoved room \<and> \<not> isOpen room \<longrightarrow>
         joinChatRoom mem s = (Returned (Rejected (ChatRoomError ''Chat Room is Private'')), s)) \<and>
      (\<not> isRemoved room \<and> isOpen room \<longrightarrow>
         ChatRooms (snd (joinChatRoom mem s)) roomRef =
           Some (room\<lparr>members := members room @ [mem], isOpen := False\<rparr>) \<and>
         (doc (userId mem) \<noteq> None \<longrightarrow>
            fst (joinChatRoom mem s) =
              Returned (Fulfilled (ChatRoom roomRef
                (room\<lparr>members := members room @ [mem], isOpen := False\<rparr>))))))"
  using assms
  by (auto simp: joinChatRoom_def join_get_def join_then_def update_room_def
      addToMemberConversations_def Let_def split: option.splits)

theorem joinChatRoom_checks_witness:
  "joinChatRoom u2 no_docs =
     (Returned (Rejected (ChatRoomError ''Chat Room does'nt exist'')), no_docs) \<and>
   joinChatRoom u2 (with_room (trip [u1] True True)) =
     (Returned (Rejected (ChatRoomError ''Chat Room was Already removed'')),
      with_room (trip [u1] True True)) \<and>
   joinChatRoom u2 (with_room (trip [u1] True False)) =
     (Returned (Rejected (ChatRoomError ''Chat Room was Already removed'')),
      with_room (trip [u1] True False)) \<and>
   joinChatRoom u2 (with_room (trip [u1] False False)) =
     (Returned (Rejected (ChatRoomError ''Chat Room is Private'')),
      with_room (trip [u1] False False)) \<and>
   fst (joinChatRoom u2 (with_room (trip [u1] False True))) =
     Returned (Fulfilled (ChatRoom ''r1'' (trip [u1, u2] False False))) \<and>
   ChatRooms (snd (joinChatRoom u2 (with_room (trip [u1] False True)))) ''r1'' =
     Some (trip [u1, u2] False False)"
proof -
  have id: "doc (m_id u2) = Some ''r1''" and uid: "doc (userId u2) \<noteq> None"
    by (simp_all add: u2_def doc_examples)
  show ?thesis
    using joinChatRoom_checks [OF id, of no_docs]
      joinChatRoom_checks [OF id, of "with_room (trip [u1] True True)"]
      joinChatRoom_checks [OF id, of "with_room (trip [u1] True False)"]
      joinChatRoom_checks [OF id, of "with_room (trip [u1] False False)"]
      joinChatRoom_checks [OF id, of "with_room (trip [u1] False True)"] uid
    by (simp add: no_docs_def with_room_def trip_def)
qed



subsection \<open>Two joins of the same room\<close>

text \<open>When the second call reads the room after the update of the first, the first join is
  fulfilled and the second is rejected as private.\<close>

lemma sequential_joins:
  assumes "doc (m_id memA) = Some roomRef" "m_id memB = m_id memA"
    and "ChatRooms s roomRef = Some room" "\<not> isRemoved room" "isOpen room"
    and "doc (userId memA) = Some userRef"
  shows "fst (run_joins [True, True, False, False] memA memB (Pending, Pending, s)) =
           Settled (Fulfilled (ChatRoom roomRef
             (room\<lparr>members := members room @ [memA], isOpen := False\<rparr>)))"
    and "fst (snd (run_joins [True, True, False, False] memA memB (Pending, Pending, s))) =
           Settled (Rejected (ChatRoomError ''Chat Room is Private''))"
  using assms
  by (simp_all add: join_get_def join_then_open [where d = room] join_then_closed)

text \<open>When both calls read the room before either update, both see \<open>isOpen\<close>, both updates
  are applied and both promises are fulfilled; the stored members are those of the later
  update, so the member of the earlier one is lost.\<close>

lemma racing_joins:
  assumes "doc (m_id memA) = Some roomRef" "m_id memB = m_id memA"
    and "ChatRooms s roomRef = Some room" "\<not> isRemoved room" "isOpen room"
    and "doc (userId memA) = Some userRefA" "doc (userId memB) = Some userRefB"
  shows "fst (run_joins [True, False, True, False] memA memB (Pending, Pending, s)) =
           Settled (Fulfilled (ChatRoom roomRef
             (room\<lparr>members := members room @ [memA], isOpen := False\<rparr>)))"
    and "fst (snd (run_joins [True, False, True, False] memA memB (Pending, Pending, s))) =
           Settled (Fulfilled (ChatRoom roomRef
             (room\<lparr>members := members room @ [memB], isOpen := False\<rparr>)))"
    and "ChatRooms (snd (snd (run_joins [True, False, True, False] memA memB
           (Pending, Pending, s)))) roomRef =
           Some (room\<lparr>members := members room @ [memB], isOpen := False\<rparr>)"
  using assms
  by (simp_all add: join_get_def join_then_open [where d = room]
        join_then_open [where d = "room\<lparr>members := members room @ [memA], isOpen := False\<rparr>"])

text \<open>
  Claim C1 asks that of two racing joins of an open room exactly one succeeds and the other
  fails as private. Here \<open>u2\<close> and \<open>u3\<close> join the open room \<open>r1\<close> of \<open>u1\<close>, and both
  snapshots are read before either update: both promises are fulfilled, the room ends with
  the members \<open>u1\<close> and \<open>u3\<close>, and the index of \<open>u2\<close> lists a room that \<open>u2\<close> is not a
  member of. The update is not conditioned on the value of \<open>isOpen\<close> that was read.
\<close>

theorem race_both_joins_succeed:
  "fst (run_joins [True, False, True, False] u2 u3
         (Pending, Pending, with_room (trip [u1] False True))) =
     Settled (Fulfilled (ChatRoom ''r1'' (trip [u1, u2] False False))) \<and>
   fst (snd (run_joins [True, False, True, False] u2 u3
         (Pending, Pending, with_room (trip [u1] False True)))) =
     Settled (Fulfilled (ChatRoom ''r1'' (trip [u1, u3] False False))) \<and>
   ChatRooms (snd (snd (run_joins [True, False, True, False] u2 u3
         (Pending, Pending, with_room (trip [u1] False True))))) ''r1'' =
     Some (trip [u1, u3] False False) \<and>
   UsersChat (snd (snd (run_joins [True, False, True, False] u2 u3
         (Pending, Pending, with_room (trip [u1] False True))))) ''u2'' =
     Some [''r1'']"
  by (simp add: join_get_def join_then_def update_room_def addToMemberConversations_def
      with_room_def trip_def u1_def u2_def u3_def Let_def ChatRoom_def doc_examples
      ref_id_examples update_field_examples)

section \<open>Properties of createChatRoom and of the validation\<close>

text \<open>The \<open>forEach\<close> never changes \<open>photo\<close> or \<open>userId\<close>, and a call of \<open>createChatRoom\<close>
  that returns, returns \<open>undefined\<close>.\<close>

lemma check_members_photo:
  "check_members mems = Inr ms \<Longrightarrow>
   map photo ms = map photo mems \<and> map userId ms = map userId mems"
  by (induction mems arbitrary: ms) (auto split: if_splits sum.splits)

lemma createChatRoom_returns_undefined:
  "fst (createChatRoom ttl mems newKey now s) = Returned v \<Longrightarrow> v = JUndefined"
  by (auto simp: createChatRoom_def split: if_splits sum.splits)

text \<open>
  Claim C3 asks that \<open>createChatRoom\<close> applies the default \<open>photo = ''\<close> and returns the
  created room. For the title "Trip" and the two members \<open>u1\<close> and \<open>u2\<close>, which carry no
  \<open>username\<close> and no \<open>photo\<close>, the room is persisted with \<open>createdAt = now\<close>, \<open>isOpen = true\<close>,
  \<open>isRemoved = false\<close> and \<open>username = ''\<close>, and both index records receive the room key;
  but \<open>photo\<close> stays undefined (the default went to \<open>phtot\<close>) and the call returns
  \<open>undefined\<close>.
\<close>

theorem createChatRoom_photo_and_return:
  "fst (createChatRoom (JStr ''Trip'') [u1, u2] ''r9'' 1000 no_docs) = Returned JUndefined \<and>
   ChatRooms (snd (createChatRoom (JStr ''Trip'') [u1, u2] ''r9'' 1000 no_docs)) ''r9'' =
     Some \<lparr>title = JStr ''Trip'',
           members =
             [\<lparr>m_id = JStr ''r1'', userId = JStr ''u1'', username = JStr [], photo = JUndefined,
               phtot = JStr []\<rparr>,
              \<lparr>m_id = JStr ''r1'', userId = JStr ''u2'', username = JStr [], photo = JUndefined,
               phtot = JStr []\<rparr>],
           createdAt = 1000, isRemoved = False, isOpen = True\<rparr> \<and>
   UsersChat (snd (createChatRoom (JStr ''Trip'') [u1, u2] ''r9'' 1000 no_docs)) ''u1'' =
     Some [''r9''] \<and>
   UsersChat (snd (createChatRoom (JStr ''Trip'') [u1, u2] ''r9'' 1000 no_docs)) ''u2'' =
     Some [''r9'']"
  by (simp add: createChatRoom_def addToMemberConversations_def no_docs_def u1_def u2_def
      doc_examples)

text \<open>A member without a non-empty string \<open>userId\<close> makes the \<open>forEach\<close> throw a
  ChatRoomError, whichever member it is.\<close>

lemma check_members_invalid:
  assumes "\<exists>m\<in>set mems. isEmpty (userId m) \<or> \<not> isString (userId m)"
  shows "\<exists>msg. check_members mems = Inl (ChatRoomError msg)"
  using assms
proof (induction mems)
  case Nil
  then show ?case by simp
next
  case (Cons m ms)
  show ?case
  proof (cases "isEmpty (userId m) \<or> \<not> isString (userId m)")
    case True
    then show ?thesis by auto
  next
    case False
    with Cons.prems have "\<exists>m\<in>set ms. isEmpty (userId m) \<or> \<not> isString (userId m)"
      by auto
    then obtain msg where "check_members ms = Inl (ChatRoomError msg)"
      using Cons.IH by blast
    then show ?thesis by simp
  qed
qed

lemma createChatRoom_invalid:
  assumes "isEmpty ttl \<or> \<not> isString ttl \<or>
           (\<exists>m\<in>set mems. isEmpty (userId m) \<or> \<not> isString (userId m))"
  shows "\<exists>msg. createChatRoom ttl mems newKey now s = (Threw (ChatRoomError msg), s)"
proof (cases "isEmpty ttl \<or> \<not> isString ttl")
  case True
  then show ?thesis by (simp add: createChatRoom_def)
next
  case False
  with assms obtain msg where "check_members mems = Inl (ChatRoomError msg)"
    using check_members_invalid by blast
  with False show ?thesis by (simp add: createChatRoom_def)
qed

text \<open>
  Claim C6. The validation failures are thrown by the call itself (\<open>Threw\<close>, not a
  rejected promise) and leave the store as it was: an empty or non-string title in
  \<open>createChatRoom\<close> and in \<open>setNewTitle\<close>, a member whose \<open>userId\<close> is not a non-empty
  string in \<open>createChatRoom\<close>, an empty or non-string body in the Message constructor and
  in \<open>updateBody\<close>.
\<close>

theorem validation_before_writes:
  "(isEmpty ttl \<or> \<not> isString ttl \<or> (\<exists>m\<in>set mems. isEmpty (userId m) \<or> \<not> isString (userId m)) \<longrightarrow>
      (\<exists>msg. createChatRoom ttl mems newKey now s = (Threw (ChatRoomError msg), s))) \<and>
   (isEmpty ttl \<or> \<not> isString ttl \<longrightarrow>
      ChatRoom_setNewTitle ttl has_onComplete this s =
        (Threw (ChatRoomError ''title should be not empty and string''), s)) \<and>
   (isEmpty bdy \<or> \<not> isString bdy \<longrightarrow>
      Message_constructor bdy frm room fromRef newKey now s =
        (Threw (MessageError ''Message should have body and be string''), s) \<and>
      Message_updateBody bdy has_callback msg now s =
        (Threw (MessageError ''Message should have body and be string''), msg, s))"
proof (intro conjI impI)
  assume "isEmpty ttl \<or> \<not> isString ttl \<or>
          (\<exists>m\<in>set mems. isEmpty (userId m) \<or> \<not> isString (userId m))"
  then show "\<exists>msg. createChatRoom ttl mems newKey now s = (Threw (ChatRoomError msg), s)"
    by (rule createChatRoom_invalid)
next
  assume "isEmpty ttl \<or> \<not> isString ttl"
  then show "ChatRoom_setNewTitle ttl has_onComplete this s =
        (Threw (ChatRoomError ''title should be not empty and string''), s)"
    by (auto simp: ChatRoom_setNewTitle_def)
next
  assume "isEmpty bdy \<or> \<not> isString bdy"
  then show "Message_constructor bdy frm room fromRef newKey now s =
        (Threw (MessageError ''Message should have body and be string''), s)"
    by (auto simp: Message_constructor_def)
next
  assume "isEmpty bdy \<or> \<not> isString bdy"
  then show "Message_updateBody bdy has_callback msg now s =
        (Threw (MessageError ''Message should have body and be string''), msg, s)"
    by (auto simp: Message_updateBody_def)
qed

theorem validation_before_writes_witness:
  "createChatRoom (JStr []) [u1, u2] ''r9'' 1000 no_docs =
     (Threw (ChatRoomError ''title should be not empty and be string''), no_docs) \<and>
   createChatRoom (JStr ''Trip'') [u1, u2\<lparr>userId := JNum 7\<rparr>] ''r9'' 1000 no_docs =
     (Threw (ChatRoomError ''Users must be a string and not empty ,your Object keys must be  {userId, username if any, photo if any} ''), no_docs) \<and>
   ChatRoom_setNewTitle (JNum 3) True room12 two_rooms =
     (Threw (ChatRoomError ''title should be not empty and string''), two_rooms) \<and>
   Message_constructor (JStr []) (JStr ''u1'') room12 None ''m1'' 5 two_rooms =
     (Threw (MessageError ''Message should have body and be string''), two_rooms) \<and>
   Message_updateBody JNull True
       \<lparr>body = JStr ''hi'', from_user = JStr ''u1'', sentAt = 5, updatedAt = None,
        chatRoom = room12, messageRef = (''r1'', ''m1'')\<rparr> 6 two_rooms =
     (Threw (MessageError ''Message should have body and be string''),
      \<lparr>body = JStr ''hi'', from_user = JStr ''u1'', sentAt = 5, updatedAt = None,
       chatRoom = room12, messageRef = (''r1'', ''m1'')\<rparr>, two_rooms)"
proof -
  note t1 = validation_before_writes [of "JStr []" "[u1, u2]" "''r9''" 1000 no_docs]
  note t2 = validation_before_writes
    [of "JStr ''Trip''" "[u1, u2\<lparr>userId := JNum 7\<rparr>]" "''r9''" 1000 no_docs]
  note t3 = validation_before_writes
    [of "JNum 3" "[]" "''m1''" 5 two_rooms True room12 "JStr []" "JStr ''u1''" room12 None]
  note t4 = validation_before_writes
    [of "JNum 3" "[]" "''m1''" 6 two_rooms True room12 JNull "JStr ''u1''" room12 None True
        "\<lparr>body = JStr ''hi'', from_user = JStr ''u1'', sentAt = 5, updatedAt = None,
          chatRoom = room12, messageRef = (''r1'', ''m1'')\<rparr>"]
  have 1: "createChatRoom (JStr []) [u1, u2] ''r9'' 1000 no_docs =
     (Threw (ChatRoomError ''title should be not empty and be string''), no_docs)"
    using t1 by (auto simp: createChatRoom_def)
  have 2: "createChatRoom (JStr ''Trip'') [u1, u2\<lparr>userId := JNum 7\<rparr>] ''r9'' 1000 no_docs =
     (Threw (ChatRoomError ''Users must be a string and not empty ,your Object keys must be  {userId, username if any, photo if any} ''), no_docs)"
    using t2 by (auto simp: createChatRoom_def u1_def u2_def)
  show ?thesis
    using 1 2 t3 t4 by simp
qed

section \<open>Properties of remove and removeMutualChatRooms\<close>

text \<open>
  The soft remove returns \<open>this\<close>, sets \<open>isRemoved\<close> in the stored room and changes no
  other field and no other document, and a second soft remove gives the same result and the
  same store as the first. The hard remove throws, for every room and every store, and
  leaves the store as it was.
\<close>

lemma ChatRoom_remove_soft:
  "fst (ChatRoom_remove True this s) = Returned this \<and>
   (\<forall>d. ChatRooms s (chatRoomRef this) = Some d \<longrightarrow>
      snd (ChatRoom_remove True this s) =
        s\<lparr>ChatRooms := (ChatRooms s)(chatRoomRef this \<mapsto> d\<lparr>isRemoved := True\<rparr>)\<rparr>) \<and>
   ChatRoom_remove True this (snd (ChatRoom_remove True this s)) = ChatRoom_remove True this s"
  by (auto simp: ChatRoom_remove_def update_room_def split: option.splits)

lemma ChatRoom_remove_hard:
  "ChatRoom_remove False this s =
     (Threw (TypeError ''this.chatRoomRef.remove is not a function''), s)"
  by (simp add: ChatRoom_remove_def)

text \<open>
  Claim C7 asks that \<open>remove\<close> without \<open>softRemove\<close> deletes the room document and that
  it is no error when there is none. For the ChatRoom of the room \<open>r1\<close>, the call throws
  the \<open>TypeError\<close> of the missing method \<open>remove\<close>: the document of \<open>r1\<close> is still
  there afterwards, and on a store without the document the call throws as well.
\<close>

theorem hard_remove_throws:
  "ChatRoom_remove False room12 (with_room (trip [u1, u2] False False)) =
     (Threw (TypeError ''this.chatRoomRef.remove is not a function''),
      with_room (trip [u1, u2] False False)) \<and>
   ChatRooms (snd (ChatRoom_remove False room12 (with_room (trip [u1, u2] False False)))) ''r1'' =
     Some (trip [u1, u2] False False) \<and>
   ChatRoom_remove False room12 no_docs =
     (Threw (TypeError ''this.chatRoomRef.remove is not a function''), no_docs)"
  by (simp add: ChatRoom_remove_def with_room_def)

text \<open>
  With \<open>softRemove\<close>, when both index records exist and the keys of user B are plain
  ids, \<open>removeMutualChatRooms\<close> is fulfilled; a room key listed by both users has
  \<open>isRemoved\<close> set if its document exists, and every other room document, the index
  records and the messages are untouched. This holds key by key, so a key of the
  intersection whose update is rejected (no document) does not keep the other keys from
  being processed. The example of the spec: of \<open>r1\<close> to \<open>r4\<close>, only \<open>r2\<close> and \<open>r3\<close> are
  marked.
\<close>

lemma remove_mutual_each_soft:
  assumes "\<forall>key\<in>set bs. plain_id key"
  shows "fst (remove_mutual_each as True bs s) = None \<and>
         UsersChat (snd (remove_mutual_each as True bs s)) = UsersChat s \<and>
         Messages (snd (remove_mutual_each as True bs s)) = Messages s \<and>
         (\<forall>key. ChatRooms (snd (remove_mutual_each as True bs s)) key =
            (if key \<in> set as \<and> key \<in> set bs
             then map_option (\<lambda>d. d\<lparr>isRemoved := True\<rparr>) (ChatRooms s key)
             else ChatRooms s key))"
  using assms
proof (induction bs arbitrary: s)
  case Nil
  then show ?case by simp
next
  case (Cons b bs)
  then have b: "doc (JStr b) = Some b" and IH: "\<And>s. fst (remove_mutual_each as True bs s) = None \<and>
         UsersChat (snd (remove_mutual_each as True bs s)) = UsersChat s \<and>
         Messages (snd (remove_mutual_each as True bs s)) = Messages s \<and>
         (\<forall>key. ChatRooms (snd (remove_mutual_each as True bs s)) key =
            (if key \<in> set as \<and> key \<in> set bs
             then map_option (\<lambda>d. d\<lparr>isRemoved := True\<rparr>) (ChatRooms s key)
             else ChatRooms s key))"
    by (simp_all add: doc_plain)
  show ?case
    by (cases "ChatRooms s b") (auto simp: b IH update_room_def)
qed

lemma removeMutualChatRooms_soft:
  assumes "doc userA = Some refA" "doc userB = Some refB"
    and "UsersChat s refA = Some as" "UsersChat s refB = Some bs"
    and "\<forall>key\<in>set bs. plain_id key"
  shows "fst (removeMutualChatRooms userA userB True s) = Fulfilled JUndefined"
    and "ChatRooms (snd (removeMutualChatRooms userA userB True s)) key =
           (if key \<in> set as \<inter> set bs
            then map_option (\<lambda>d. d\<lparr>isRemoved := True\<rparr>) (ChatRooms s key)
            else ChatRooms s key)"
    and "UsersChat (snd (removeMutualChatRooms userA userB True s)) = UsersChat s"
    and "Messages (snd (removeMutualChatRooms userA userB True s)) = Messages s"
  using assms(1-4) remove_mutual_each_soft [OF assms(5), of as s]
  by (auto simp: removeMutualChatRooms_def split: prod.splits option.splits)

lemma removeMutualChatRooms_soft_example:
  "fst (removeMutualChatRooms (JStr ''A'') (JStr ''B'') True
         (mutual_store [''r1'', ''r2'', ''r3'', ''r4''])) = Fulfilled JUndefined \<and>
   map (ChatRooms (snd (removeMutualChatRooms (JStr ''A'') (JStr ''B'') True
          (mutual_store [''r1'', ''r2'', ''r3'', ''r4'']))))
     [''r1'', ''r2'', ''r3'', ''r4''] =
     [Some (trip [u1, u2] False False), Some (trip [u1, u2] True False),
      Some (trip [u1, u2] True False), Some (trip [u1, u2] False False)]"
proof -
  have a: "UsersChat (mutual_store keys) ''A'' = Some [''r1'', ''r2'', ''r3'']"
    and b: "UsersChat (mutual_store keys) ''B'' = Some [''r2'', ''r3'', ''r4'']" for keys
    by (simp_all add: mutual_store_def)
  have p: "\<forall>key\<in>set [''r2'', ''r3'', ''r4'']. plain_id key"
    by (simp add: plain_examples)
  note soft = removeMutualChatRooms_soft [OF doc_examples(9) doc_examples(10) a b p]
  show ?thesis
    by (simp add: soft) (simp add: mutual_store_def trip_def)
qed

text \<open>
  Claim C8 asks that \<open>removeMutualChatRooms\<close> removes exactly the rooms that both users
  list, whatever \<open>softRemove\<close> is, one failure not keeping the others from being
  processed. Without \<open>softRemove\<close>, with user A under \<open>r1\<close>, \<open>r2\<close>, \<open>r3\<close> and user B
  under \<open>r2\<close>, \<open>r3\<close>, \<open>r4\<close>, the call of \<open>chatRoomRef.remove()\<close> for \<open>r2\<close> throws out
  of the \<open>forEach\<close>: the promise is rejected with the \<open>TypeError\<close>, the store is
  unchanged, and \<open>r2\<close> and \<open>r3\<close> are both still there.
\<close>

theorem hard_removeMutual_removes_nothing:
  "removeMutualChatRooms (JStr ''A'') (JStr ''B'') False
       (mutual_store [''r1'', ''r2'', ''r3'', ''r4'']) =
     (Rejected (TypeError ''chatRoomRef.remove is not a function''),
      mutual_store [''r1'', ''r2'', ''r3'', ''r4'']) \<and>
   map (ChatRooms (mutual_store [''r1'', ''r2'', ''r3'', ''r4''])) [''r2'', ''r3''] =
     [Some (trip [u1, u2] False False), Some (trip [u1, u2] False False)]"
  by (simp add: removeMutualChatRooms_def doc_examples mutual_store_def)

section \<open>Properties of getUserChatRooms\<close>

text \<open>\<open>onComplete\<close> is called only when \<open>list\<close> reaches the length of \<open>ids\<close>, which takes
  every key to resolve: one key without a document and the callback is never called.\<close>

lemma collect_chats_short:
  "length lst + length (filter (\<lambda>k. \<exists>v. fetch_chat k s = Returned (Some v)) keys) < n \<Longrightarrow>
   collect_chats n keys s lst calls = calls"
  by (induction keys arbitrary: lst calls) (auto split: outcome.splits option.splits)

lemma length_issued_refs: "length (issued_refs ids) \<le> length ids"
  by (induction ids) (auto split: option.splits)

lemma getUserChatRooms_dangling:
  assumes "\<not> isEmpty user" "\<not> isObject user" "doc user = Some userRef"
    and "UsersChat s userRef = Some ids"
    and "roomRef \<in> set (issued_refs ids)" "ChatRooms s roomRef = None"
  shows "getUserChatRooms user s = (Returned JUndefined, [])"
proof -
  have "fetch_chat roomRef s = Returned None"
    using assms(6) by (simp add: fetch_chat_def)
  then have "length (filter (\<lambda>k. \<exists>v. fetch_chat k s = Returned (Some v)) (issued_refs ids))
               < length (issued_refs ids)"
    using assms(5) by (intro length_filter_less[of roomRef]) auto
  then have "length (filter (\<lambda>k. \<exists>v. fetch_chat k s = Returned (Some v)) (issued_refs ids))
               < length ids"
    using length_issued_refs [of ids] by linarith
  then have "collect_chats (length ids) (issued_refs ids) s [] [] = []"
    by (intro collect_chats_short) simp
  then show ?thesis
    using assms by (simp add: getUserChatRooms_def)
qed

text \<open>
  Claim C4 asks that \<open>getUserChatRooms\<close> skips a room key that no longer resolves and
  still calls the completion callback once with the rooms that did resolve. Here \<open>u1\<close> is
  indexed under \<open>r1\<close>, which resolves, and under \<open>r2\<close>, which has no document: the call
  returns and \<open>onComplete\<close> is never called.
\<close>

theorem getUserChatRooms_never_completes:
  "getUserChatRooms (JStr ''u1'') index_store = (Returned JUndefined, []) \<and>
   fetch_chat ''r1'' index_store =
     Returned (Some \<lparr>view_title = JStr ''Trip'', userAFire = to_fire u1, userBFire = to_fire u2,
                     view_ref = ''r1'', view_createdAt = 1000\<rparr>) \<and>
   fetch_chat ''r2'' index_store = Returned None"
  by (simp add: getUserChatRooms_def fetch_chat_def index_store_def trip_def doc_examples)

section \<open>Properties of the Message constructor and of getMessagesAndListen\<close>

text \<open>
  Claim C5. In a room with exactly two members, \<open>sendMessage\<close> with a \<open>from\<close> that is a
  string, or an object with a \<open>userId\<close> property, and that is strictly equal to the
  \<open>userId\<close> of neither member throws a MessageError (the ValidationError of the spec) and
  writes nothing, whatever \<open>isOpen\<close> and \<open>isRemoved\<close> are. The message is "'from' user
  must be in this chat room" whenever the two earlier checks pass, that is for a non-empty
  string body and a non-empty \<open>from\<close>.
\<close>

theorem sendMessage_from_outside:
  assumes "members this = [a, b]"
    and "frm = JStr u \<and> v = JStr u \<or> frm = JObj kvs \<and> map_of kvs ''userId'' = Some v"
    and "\<not> strict_eq (userId a) v" and "\<not> strict_eq (userId b) v"
  shows "\<exists>msg. ChatRoom_sendMessage bdy frm this newKey now s = (Threw (MessageError msg), s) \<and>
           (\<not> isEmpty bdy \<and> isString bdy \<and> \<not> isEmpty frm \<longrightarrow>
              msg = '' 'from' user must be in this chat room'')"
  using assms
  by (auto simp: ChatRoom_sendMessage_def Message_constructor_def in_neither_def differs_at_def)

theorem sendMessage_from_outside_witness:
  "ChatRoom_sendMessage (JStr ''hi'') (JStr ''u3'') room12 ''m1'' 5 no_docs =
     (Threw (MessageError '' 'from' user must be in this chat room''), no_docs) \<and>
   ChatRoom_sendMessage (JStr ''hi'') (JObj [(''userId'', JStr ''u3'')])
       (ChatRoom ''r1'' (trip [u1, u2] True True)) ''m1'' 5 no_docs =
     (Threw (MessageError '' 'from' user must be in this chat room''), no_docs)"
proof -
  have ms: "members room12 = [u1, u2]" "members (ChatRoom ''r1'' (trip [u1, u2] True True)) = [u1, u2]"
    by (simp_all add: room12_def ChatRoom_def trip_def)
  have ne: "\<not> strict_eq (userId u1) (JStr ''u3'')" "\<not> strict_eq (userId u2) (JStr ''u3'')"
    by (simp_all add: u1_def u2_def)
  have str: "JStr ''u3'' = JStr ''u3'' \<and> JStr ''u3'' = JStr ''u3'' \<or>
             JStr ''u3'' = JObj [] \<and> map_of [] ''userId'' = Some (JStr ''u3'')"
    by simp
  have obj: "JObj [(''userId'', JStr ''u3'')] = JStr ''u3'' \<and> JStr ''u3'' = JStr ''u3'' \<or>
             JObj [(''userId'', JStr ''u3'')] = JObj [(''userId'', JStr ''u3'')] \<and>
             map_of [(''userId'', JStr ''u3'')] ''userId'' = Some (JStr ''u3'')"
    by simp
  show ?thesis
    using sendMessage_from_outside [OF ms(1) str ne, of "JStr ''hi''" "''m1''" 5 no_docs]
      sendMessage_from_outside [OF ms(2) obj ne, of "JStr ''hi''" "''m1''" 5 no_docs]
    by auto
qed

text \<open>
  The constructor on a stored entry whose body is a non-empty string and whose sender is
  one of the first two members of the room: it returns the Message and writes nothing. On a
  snapshot whose added entries are all of that kind, the listener calls \<open>action\<close> once for
  each added entry, in the order of the snapshot, and never for a modified or removed
  change.
\<close>

lemma Message_constructor_view:
  assumes "isString bdy" "\<not> isEmpty bdy" "u \<noteq> []" "members this = a # b # rest"
    and "userId a = JStr u \<or> userId b = JStr u"
  shows "Message_constructor bdy (JStr u) this (Some ref) k now s =
           (Returned \<lparr>body = bdy, from_user = JStr u, sentAt = now, updatedAt = None,
                      chatRoom = this, messageRef = ref\<rparr>, s)"
proof (cases "strict_eq (userId a) (JStr u)")
  case True
  with assms show ?thesis
    by (simp add: Message_constructor_def in_neither_def differs_at_def)
next
  case False
  with assms have "userId b = JStr u" by auto
  with False assms show ?thesis
    by (simp add: Message_constructor_def in_neither_def differs_at_def)
qed

lemma snapshot_listener_added:
  assumes "members this = a # b # rest"
    and "\<forall>c\<in>set cs. ctype c = Added \<longrightarrow>
           isString (body (doc_data c)) \<and> \<not> isEmpty (body (doc_data c)) \<and>
           (\<exists>u. u \<noteq> [] \<and> from_user (doc_data c) = JStr u \<and> (userId a = JStr u \<or> userId b = JStr u))"
  shows "snapshot_listener this now s cs =
           (map (\<lambda>c. \<lparr>body = body (doc_data c), from_user = from_user (doc_data c),
                       sentAt = sentAt (doc_data c), updatedAt = None, chatRoom = this,
                       messageRef = (chatRoomRef this, doc_key c)\<rparr>)
              (filter (\<lambda>c. ctype c = Added) cs), None)"
  using assms(2)
proof (induction cs)
  case Nil
  then show ?case by simp
next
  case (Cons c cs)
  then have IH: "snapshot_listener this now s cs =
         (map (\<lambda>c. \<lparr>body = body (doc_data c), from_user = from_user (doc_data c),
                     sentAt = sentAt (doc_data c), updatedAt = None, chatRoom = this,
                     messageRef = (chatRoomRef this, doc_key c)\<rparr>)
            (filter (\<lambda>c. ctype c = Added) cs), None)"
    by simp
  show ?case
  proof (cases "ctype c = Added")
    case True
    with Cons.prems obtain u where u: "u \<noteq> []" "from_user (doc_data c) = JStr u"
      "userId a = JStr u \<or> userId b = JStr u"
      and bd: "isString (body (doc_data c))" "\<not> isEmpty (body (doc_data c))"
      by auto
    show ?thesis
      using True IH
      by (simp add: u(2) Message_constructor_view [OF bd u(1) assms(1) u(3)])
  next
    case False
    then show ?thesis using IH by simp
  qed
qed

text \<open>
  Claim C9 asks for one call of \<open>onMessage\<close> for every added entry. The listener builds
  each Message with the validating constructor, and a throw of the constructor leaves the
  \<open>forEach\<close>. In the ChatRoom that \<open>u2\<close> holds of the room \<open>r1\<close> (members \<open>u1\<close> and
  \<open>u2\<close>), a snapshot with an added entry sent by \<open>u3\<close> followed by an added entry sent by
  \<open>u1\<close> ends with a MessageError and no call of \<open>action\<close>: the entry of \<open>u1\<close>, which
  is delivered when it comes alone, is lost.
\<close>

theorem listener_aborts_on_foreign_sender:
  "snd (getMessagesAndListen room12) 9 no_docs
       [change Added ''m1'' (entry ''hi'' ''u3'' 5), change Added ''m2'' (entry ''yo'' ''u1'' 6)] =
     ([], Some (MessageError '' 'from' user must be in this chat room'')) \<and>
   snd (getMessagesAndListen room12) 9 no_docs [change Added ''m2'' (entry ''yo'' ''u1'' 6)] =
     ([\<lparr>body = JStr ''yo'', from_user = JStr ''u1'', sentAt = 6, updatedAt = None,
        chatRoom = room12, messageRef = (''r1'', ''m2'')\<rparr>], None)"
  by (simp add: getMessagesAndListen_def Message_constructor_def in_neither_def differs_at_def
      room12_def ChatRoom_def trip_def change_def entry_def u1_def u2_def)

end
